theory Spec2Isabelle
  imports
    Complex_Main
    "HOL-Library.Char_ord"
    "HOL-Library.List_Lexorder"
    "HOL-Library.Option_ord"
    "HOL-Library.Multiset"
begin

section \<open>The journal store and its HTTP handlers\<close>

text \<open>
  The server keeps five SQLite tables and answers each request with one statement or a
  short loop of statements. A table is the list of its rows in rowid order, together
  with the largest rowid it ever handed out (the \<open>sqlite_sequence\<close> entry that
  \<open>AUTOINCREMENT\<close> maintains), so that a new row gets a rowid never used before.
  Rowids are mathematical integers here; the 64-bit bound of SQLite is not modelled.

  A \<open>TEXT\<close> column holds a text or \<open>NULL\<close>: \<open>string option\<close>, with \<open>None\<close> for \<open>NULL\<close>.
  Texts are byte strings and are compared bytewise (SQLite's \<open>BINARY\<close> collation), which
  is the lexicographic order on \<open>char list\<close>; \<open>NULL\<close> sorts below every text.
  A field of a request body that is absent or \<open>null\<close> is bound as \<open>NULL\<close>.
  The \<open>:id\<close> segment of a path is compared with an \<open>INTEGER\<close> column under numeric
  affinity; the handlers below take the integer it denotes.
\<close>

subsection \<open>Request values\<close>

text \<open>The JSON value of the \<open>completed\<close> field, \<open>JUndefined\<close> when the body has no such field.\<close>

datatype json =
    JUndefined
  | JNull
  | JBool bool
  | JNumber real
  | JString string
  | JArray "json list"
  | JObject "(string \<times> json) list"

text \<open>JavaScript's truthiness, as the conditional \<open>completed ? 1 : 0\<close> applies it.\<close>

fun truthy :: "json \<Rightarrow> bool" where
  "truthy JUndefined = False"
| "truthy JNull = False"
| "truthy (JBool b) = b"
| "truthy (JNumber x) = (x \<noteq> 0)"
| "truthy (JString s) = (s \<noteq> [])"
| "truthy (JArray xs) = True"
| "truthy (JObject kvs) = True"

text \<open>
  What a handler sends back: \<open>Json v\<close> for \<open>res.json(v)\<close>, \<open>Failure\<close> when a
  statement throws and the exception leaves the handler.
\<close>

datatype 'a response = Json 'a | Failure

subsection \<open>Tables\<close>

record entry =
  entry_id :: int
  entry_date :: "string option"
  journal_text :: "string option"
  mood :: "string option"
  sleep_start :: "string option"
  sleep_end :: "string option"
  reflection_json :: "string option"
  image_data :: "string option"

record target =
  target_id :: int
  target_type :: "string option"
  target_title :: "string option"
  target_completed :: int
  period_key :: "string option"

record task =
  task_id :: int
  task_date :: "string option"
  task_title :: "string option"
  task_completed :: int

record routine_template =
  rt_id :: int
  rt_name :: "string option"

record routine_template_task =
  rtt_id :: int
  template_id :: int
  rtt_title :: "string option"

record store =
  entries :: "entry list"
  entries_seq :: int
  targets :: "target list"
  targets_seq :: int
  tasks :: "task list"
  tasks_seq :: int
  routine_templates :: "routine_template list"
  routine_templates_seq :: int
  routine_template_tasks :: "routine_template_task list"
  routine_template_tasks_seq :: int

text \<open>The database right after the schema is created for the first time.\<close>

definition empty_store :: store where
  "empty_store =
     \<lparr>entries = [], entries_seq = 0, targets = [], targets_seq = 0,
      tasks = [], tasks_seq = 0, routine_templates = [], routine_templates_seq = 0,
      routine_template_tasks = [], routine_template_tasks_seq = 0\<rparr>"

subsection \<open>Entries\<close>

text \<open>The body of \<open>POST /api/entries\<close>, field by field.\<close>

record entry_payload =
  p_date :: "string option"
  p_journal_text :: "string option"
  p_mood :: "string option"
  p_sleep_start :: "string option"
  p_sleep_end :: "string option"
  p_reflection_json :: "string option"
  p_image_data :: "string option"

text \<open>SQL's \<open>COALESCE\<close> of two values: the first that is not \<open>NULL\<close>.\<close>

definition coalesce :: "'a option \<Rightarrow> 'a option \<Rightarrow> 'a option" where
  "coalesce a b = (case a of Some x \<Rightarrow> Some x | None \<Rightarrow> b)"

text \<open>
  A stored row conflicts with the incoming one on \<open>UNIQUE(date)\<close> when both dates are
  the same text; \<open>NULL\<close> dates never conflict.
\<close>

definition conflicts :: "entry_payload \<Rightarrow> entry \<Rightarrow> bool" where
  "conflicts p e \<longleftrightarrow> p_date p \<noteq> None \<and> entry_date e = p_date p"

text \<open>The \<open>DO UPDATE SET\<close> clause: every column from the incoming row, the image coalesced.\<close>

definition do_update :: "entry_payload \<Rightarrow> entry \<Rightarrow> entry" where
  "do_update p e =
     e\<lparr>journal_text := p_journal_text p,
       mood := p_mood p,
       sleep_start := p_sleep_start p,
       sleep_end := p_sleep_end p,
       reflection_json := p_reflection_json p,
       image_data := coalesce (p_image_data p) (image_data e)\<rparr>"

definition inserted_entry :: "int \<Rightarrow> entry_payload \<Rightarrow> entry" where
  "inserted_entry i p =
     \<lparr>entry_id = i, entry_date = p_date p, journal_text = p_journal_text p,
      mood = p_mood p, sleep_start = p_sleep_start p, sleep_end = p_sleep_end p,
      reflection_json = p_reflection_json p, image_data = p_image_data p\<rparr>"

text \<open>
  \<open>INSERT INTO entries ... ON CONFLICT(date) DO UPDATE SET ...\<close>: the conflicting row is
  updated in place and keeps its id; without a conflict a new row is appended. The rowid
  for the incoming row is drawn before the conflict is found, so the sequence advances on
  both paths.
\<close>

definition upsert_entry :: "entry_payload \<Rightarrow> store \<Rightarrow> store" where
  "upsert_entry p s =
     (if \<exists>e \<in> set (entries s). conflicts p e
      then s\<lparr>entries := map (\<lambda>e. if conflicts p e then do_update p e else e) (entries s),
             entries_seq := entries_seq s + 1\<rparr>
      else s\<lparr>entries := entries s @ [inserted_entry (entries_seq s + 1) p],
             entries_seq := entries_seq s + 1\<rparr>)"

text \<open>\<open>GET /api/entries/:date\<close>: the first matching row, or \<open>null\<close> (\<open>entry || null\<close>).\<close>

definition get_entry :: "store \<Rightarrow> string \<Rightarrow> entry option response" where
  "get_entry s date = Json (find (\<lambda>e. entry_date e = Some date) (entries s))"

text \<open>\<open>POST /api/entries\<close>\<close>

definition post_entry :: "entry_payload \<Rightarrow> store \<Rightarrow> unit response \<times> store" where
  "post_entry p s = (Json (), upsert_entry p s)"

text \<open>\<open>GET /api/entries\<close>: \<open>SELECT * FROM entries ORDER BY date DESC\<close>.\<close>

definition get_entries :: "store \<Rightarrow> entry list response" where
  "get_entries s = Json (rev (sort_key entry_date (entries s)))"

subsection \<open>Targets\<close>

definition get_targets :: "store \<Rightarrow> string \<Rightarrow> target list response" where
  "get_targets s period = Json (filter (\<lambda>t. period_key t = Some period) (targets s))"

definition post_target ::
  "string option \<Rightarrow> string option \<Rightarrow> string option \<Rightarrow> store \<Rightarrow> int response \<times> store" where
  "post_target ty title pk s =
     (Json (targets_seq s + 1),
      s\<lparr>targets := targets s @
           [\<lparr>target_id = targets_seq s + 1, target_type = ty, target_title = title,
             target_completed = 0, period_key = pk\<rparr>],
        targets_seq := targets_seq s + 1\<rparr>)"

text \<open>\<open>UPDATE targets SET completed = ? WHERE id = ?\<close> with \<open>completed ? 1 : 0\<close>.\<close>

definition patch_target :: "int \<Rightarrow> json \<Rightarrow> store \<Rightarrow> unit response \<times> store" where
  "patch_target i completed s =
     (Json (),
      s\<lparr>targets := map (\<lambda>t. if target_id t = i
                              then t\<lparr>target_completed := (if truthy completed then 1 else 0)\<rparr>
                              else t) (targets s)\<rparr>)"

definition delete_target :: "int \<Rightarrow> store \<Rightarrow> unit response \<times> store" where
  "delete_target i s = (Json (), s\<lparr>targets := filter (\<lambda>t. target_id t \<noteq> i) (targets s)\<rparr>)"

subsection \<open>Tasks\<close>

definition get_tasks :: "store \<Rightarrow> string \<Rightarrow> task list response" where
  "get_tasks s date = Json (filter (\<lambda>t. task_date t = Some date) (tasks s))"

text \<open>\<open>INSERT INTO tasks (date, title) VALUES (?, ?)\<close>; \<open>completed\<close> takes its default 0.\<close>

definition insert_task :: "string option \<Rightarrow> string option \<Rightarrow> store \<Rightarrow> store" where
  "insert_task date title s =
     s\<lparr>tasks := tasks s @
          [\<lparr>task_id = tasks_seq s + 1, task_date = date, task_title = title,
            task_completed = 0\<rparr>],
       tasks_seq := tasks_seq s + 1\<rparr>"

definition post_task :: "string option \<Rightarrow> string option \<Rightarrow> store \<Rightarrow> int response \<times> store" where
  "post_task date title s = (Json (tasks_seq s + 1), insert_task date title s)"

definition patch_task :: "int \<Rightarrow> json \<Rightarrow> store \<Rightarrow> unit response \<times> store" where
  "patch_task i completed s =
     (Json (),
      s\<lparr>tasks := map (\<lambda>t. if task_id t = i
                            then t\<lparr>task_completed := (if truthy completed then 1 else 0)\<rparr>
                            else t) (tasks s)\<rparr>)"

definition delete_task :: "int \<Rightarrow> store \<Rightarrow> unit response \<times> store" where
  "delete_task i s = (Json (), s\<lparr>tasks := filter (\<lambda>t. task_id t \<noteq> i) (tasks s)\<rparr>)"

subsection \<open>Routine templates\<close>

text \<open>\<open>SELECT * FROM routine_template_tasks WHERE template_id = ?\<close>\<close>

definition template_children :: "store \<Rightarrow> int \<Rightarrow> routine_template_task list" where
  "template_children s tid = filter (\<lambda>c. template_id c = tid) (routine_template_tasks s)"

text \<open>\<open>GET /api/routine-templates\<close>: every template with its child rows nested.\<close>

definition get_routine_templates ::
  "store \<Rightarrow> (routine_template \<times> routine_template_task list) list response" where
  "get_routine_templates s =
     Json (map (\<lambda>t. (t, template_children s (rt_id t))) (routine_templates s))"

definition insert_template_task :: "int \<Rightarrow> string option \<Rightarrow> store \<Rightarrow> store" where
  "insert_template_task tid title s =
     s\<lparr>routine_template_tasks := routine_template_tasks s @
          [\<lparr>rtt_id = routine_template_tasks_seq s + 1, template_id = tid, rtt_title = title\<rparr>],
       routine_template_tasks_seq := routine_template_tasks_seq s + 1\<rparr>"

text \<open>
  \<open>POST /api/routine-templates\<close>. The insert of the template fails on \<open>UNIQUE(name)\<close>
  when a stored template has the same (non-\<open>NULL\<close>) name; the failed statement changes
  nothing and the handler ends there. Otherwise the child rows are inserted one by one
  with the new template's rowid, which satisfies the foreign key. A body without a
  \<open>tasks\<close> field (\<open>None\<close>) makes the \<open>for ... of\<close> loop throw after the template is
  inserted.
\<close>

definition post_routine_templates ::
  "string option \<Rightarrow> string option list option \<Rightarrow> store \<Rightarrow> int response \<times> store" where
  "post_routine_templates name tasks_field s =
     (if name \<noteq> None \<and> (\<exists>t \<in> set (routine_templates s). rt_name t = name)
      then (Failure, s)
      else
        let templateId = routine_templates_seq s + 1;
            s1 = s\<lparr>routine_templates := routine_templates s @
                      [\<lparr>rt_id = templateId, rt_name = name\<rparr>],
                   routine_templates_seq := templateId\<rparr>
        in case tasks_field of
             None \<Rightarrow> (Failure, s1)
           | Some titles \<Rightarrow>
               (Json templateId,
                foldl (\<lambda>st taskTitle. insert_template_task templateId taskTitle st) s1 titles))"

text \<open>
  A write can also fail for a reason outside the request (disk full, I/O error). The two
  operations whose atomicity the specification discusses take that as a parameter
  \<open>fault\<close>: \<open>Some k\<close> when the store executes \<open>k\<close> more write statements of the
  request and raises on the next one, \<open>None\<close> when it raises on none.

  \<open>DELETE /api/routine-templates/:id\<close> is the single statement
  \<open>DELETE FROM routine_templates WHERE id = ?\<close>. The driver the server imports
  (better-sqlite3) opens the database with foreign keys enforced, so the schema's
  \<open>ON DELETE CASCADE\<close> removes, within the same statement, the child rows that refer
  to a deleted template. A statement that raises is rolled back as a whole.
\<close>

definition delete_template :: "nat option \<Rightarrow> int \<Rightarrow> store \<Rightarrow> unit response \<times> store" where
  "delete_template fault i s =
     (if fault = Some 0 then (Failure, s)
      else
        let deleted = filter (\<lambda>t. rt_id t = i) (routine_templates s)
        in (Json (),
            s\<lparr>routine_templates := filter (\<lambda>t. rt_id t \<noteq> i) (routine_templates s),
              routine_template_tasks :=
                filter (\<lambda>c. template_id c \<notin> set (map rt_id deleted))
                  (routine_template_tasks s)\<rparr>))"

text \<open>
  The loop of \<open>POST /api/apply-template\<close>: one \<open>INSERT INTO tasks\<close> per template
  title, each committed on its own (no transaction is opened). When a statement raises,
  the exception leaves the handler and the rows inserted so far stay.
\<close>

fun insert_each_task ::
  "nat option \<Rightarrow> string option \<Rightarrow> string option list \<Rightarrow> store \<Rightarrow> unit response \<times> store" where
  "insert_each_task fault date [] s = (Json (), s)"
| "insert_each_task (Some 0) date (title # rest) s = (Failure, s)"
| "insert_each_task (Some (Suc k)) date (title # rest) s =
     insert_each_task (Some k) date rest (insert_task date title s)"
| "insert_each_task None date (title # rest) s =
     insert_each_task None date rest (insert_task date title s)"

text \<open>
  \<open>POST /api/apply-template\<close>: read the titles of the template's child rows, then
  insert one task per title. A \<open>templateId\<close> that is absent or \<open>null\<close> matches no row.
\<close>

definition apply_template ::
  "nat option \<Rightarrow> string option \<Rightarrow> int option \<Rightarrow> store \<Rightarrow> unit response \<times> store" where
  "apply_template fault date templateId s =
     (let templateTasks =
            (case templateId of
               None \<Rightarrow> []
             | Some tid \<Rightarrow> map rtt_title (template_children s tid))
      in insert_each_task fault date templateTasks s)"

subsection \<open>Reachable states\<close>

text \<open>The states the store can be in: the empty database, changed by any sequence of requests.\<close>

inductive reachable :: "store \<Rightarrow> bool" where
  r_init: "reachable empty_store"
| r_post_entry: "reachable s \<Longrightarrow> reachable (snd (post_entry p s))"
| r_post_target: "reachable s \<Longrightarrow> reachable (snd (post_target ty title pk s))"
| r_patch_target: "reachable s \<Longrightarrow> reachable (snd (patch_target i c s))"
| r_delete_target: "reachable s \<Longrightarrow> reachable (snd (delete_target i s))"
| r_post_task: "reachable s \<Longrightarrow> reachable (snd (post_task date title s))"
| r_patch_task: "reachable s \<Longrightarrow> reachable (snd (patch_task i c s))"
| r_delete_task: "reachable s \<Longrightarrow> reachable (snd (delete_task i s))"
| r_post_routine_templates:
    "reachable s \<Longrightarrow> reachable (snd (post_routine_templates name tasks_field s))"
| r_delete_template: "reachable s \<Longrightarrow> reachable (snd (delete_template fault i s))"
| r_apply_template: "reachable s \<Longrightarrow> reachable (snd (apply_template fault date templateId s))"

subsection \<open>Invariants and example requests\<close>

text \<open>At most one row of \<open>entries\<close> carries a given date.\<close>

definition one_entry_per_date :: "store \<Rightarrow> bool" where
  "one_entry_per_date s \<longleftrightarrow>
     (\<forall>d. length (filter (\<lambda>e. entry_date e = Some d) (entries s)) \<le> 1)"


text \<open>The image a client reads back for a date: \<open>image_data\<close> of \<open>GET /api/entries/:date\<close>.\<close>

definition stored_image :: "store \<Rightarrow> string \<Rightarrow> string option" where
  "stored_image s date =
     (case get_entry s date of Json (Some e) \<Rightarrow> image_data e | _ \<Rightarrow> None)"

text \<open>
  The requests of the specification's end-to-end scenarios: an entry for 2024-01-01 with
  a given journal text and image, and the template ``Morning'' with two titles.
\<close>

definition example_entry :: "string \<Rightarrow> string option \<Rightarrow> entry_payload" where
  "example_entry text img =
     \<lparr>p_date = Some ''2024-01-01'', p_journal_text = Some text, p_mood = Some ''Joyful'',
      p_sleep_start = Some ''22:00'', p_sleep_end = Some ''06:00'',
      p_reflection_json = Some ''{}'', p_image_data = img\<rparr>"

definition morning_store :: store where
  "morning_store =
     snd (post_routine_templates (Some ''Morning'') (Some [Some ''Stretch'', Some ''Hydrate''])
            empty_store)"

section \<open>Properties\<close>

subsection \<open>Lists of rows\<close>

lemma funpow_idem:
  assumes "\<And>x. f (f x) = f x"
  shows "(f ^^ Suc n) x = f x"
  by (induction n) (simp_all add: assms)

lemma filter_others_map_if:
  assumes "\<And>t. k t = i \<Longrightarrow> k (f t) = i"
  shows "filter (\<lambda>t. k t \<noteq> i) (map (\<lambda>t. if k t = i then f t else t) xs) =
         filter (\<lambda>t. k t \<noteq> i) xs"
  by (induction xs) (simp_all add: assms)

lemma map_field_map_if:
  assumes "\<And>t. g (f t) = g t"
  shows "map g (map (\<lambda>t. if P t then f t else t) xs) = map g xs"
  by (induction xs) (simp_all add: assms)

lemma matching_rows_map_if:
  assumes "\<And>t. q (f t)"
  shows "\<forall>t \<in> set (map (\<lambda>t. if k t = i then f t else t) xs). k t = i \<longrightarrow> q t"
  by (induction xs) (simp_all add: assms)

lemma find_map_if:
  assumes "\<And>e. P e \<Longrightarrow> P (f e)"
  shows "find P (map (\<lambda>e. if P e then f e else e) xs) = map_option f (find P xs)"
  by (induction xs) (simp_all add: assms)

lemma find_append_new:
  assumes "\<forall>e \<in> set xs. \<not> P e" and "P x"
  shows "find P (xs @ [x]) = Some x"
  using assms by (induction xs) simp_all

lemma enumerate_map_snd:
  "map (\<lambda>(i, t). f i t) (enumerate n (map g xs)) = map (\<lambda>(i, c). f i (g c)) (enumerate n xs)"
  by (induction xs arbitrary: n) simp_all

subsection \<open>Saving an entry\<close>

lemma conflicts_iff: "p_date p = Some d \<Longrightarrow> conflicts p e \<longleftrightarrow> entry_date e = Some d"
  by (simp add: conflicts_def)

lemma entry_date_do_update: "entry_date (do_update p e) = entry_date e"
  by (simp add: do_update_def)

text \<open>After a save for \<open>d\<close> the row of \<open>d\<close> is the inserted row or the updated old row.\<close>

lemma find_after_upsert:
  assumes "p_date p = Some d"
  shows "find (\<lambda>e. entry_date e = Some d) (entries (upsert_entry p s)) =
           Some (case find (\<lambda>e. entry_date e = Some d) (entries s) of
                   None \<Rightarrow> inserted_entry (entries_seq s + 1) p
                 | Some e \<Rightarrow> do_update p e)"
proof (cases "\<exists>e \<in> set (entries s). entry_date e = Some d")
  case True
  then obtain e where e: "find (\<lambda>e. entry_date e = Some d) (entries s) = Some e"
    by (cases "find (\<lambda>e. entry_date e = Some d) (entries s)") (auto simp: find_None_iff)
  have "find (\<lambda>e. entry_date e = Some d)
          (map (\<lambda>e. if entry_date e = Some d then do_update p e else e) (entries s)) =
        map_option (do_update p) (find (\<lambda>e. entry_date e = Some d) (entries s))"
    by (rule find_map_if) (simp add: entry_date_do_update)
  with True e show ?thesis
    by (simp add: upsert_entry_def conflicts_iff [OF assms])
next
  case False
  then have none: "find (\<lambda>e. entry_date e = Some d) (entries s) = None"
    by (simp add: find_None_iff)
  have "find (\<lambda>e. entry_date e = Some d) (entries s @ [inserted_entry (entries_seq s + 1) p]) =
        Some (inserted_entry (entries_seq s + 1) p)"
    using False by (intro find_append_new) (simp_all add: inserted_entry_def assms)
  with False none show ?thesis
    by (simp add: upsert_entry_def conflicts_iff [OF assms])
qed

text \<open>
  C1 (as amended). For every date \<open>d\<close>, after an Entry for \<open>d\<close> is saved and a second payload
  for \<open>d\<close> is saved, the Entry read back for \<open>d\<close> has the second payload's journal text,
  mood, sleep start, sleep end and reflection; its image is the second payload's image
  when that is non-null, and otherwise the image stored after the first save. The image
  stored after the first save is the first payload's image when that is non-null or when
  no Entry for \<open>d\<close> was stored before.
\<close>

theorem resave_entry_keeps_image:
  assumes "p_date p1 = Some d" and "p_date p2 = Some d"
  shows "\<exists>e1 e2.
           get_entry (snd (post_entry p1 s)) d = Json (Some e1)
         \<and> get_entry (snd (post_entry p2 (snd (post_entry p1 s)))) d = Json (Some e2)
         \<and> journal_text e2 = p_journal_text p2
         \<and> mood e2 = p_mood p2
         \<and> sleep_start e2 = p_sleep_start p2
         \<and> sleep_end e2 = p_sleep_end p2
         \<and> reflection_json e2 = p_reflection_json p2
         \<and> (p_image_data p2 \<noteq> None \<longrightarrow> image_data e2 = p_image_data p2)
         \<and> (p_image_data p2 = None \<longrightarrow> image_data e2 = image_data e1)
         \<and> (p_image_data p1 \<noteq> None \<or> get_entry s d = Json None \<longrightarrow>
              image_data e1 = p_image_data p1)"
proof -
  let ?f = "\<lambda>st. find (\<lambda>e. entry_date e = Some d) (entries st)"
  let ?e1 = "case ?f s of None \<Rightarrow> inserted_entry (entries_seq s + 1) p1
             | Some e \<Rightarrow> do_update p1 e"
  have f1: "?f (upsert_entry p1 s) = Some ?e1"
    by (rule find_after_upsert [OF assms(1)])
  have f2: "?f (upsert_entry p2 (upsert_entry p1 s)) = Some (do_update p2 ?e1)"
    by (simp add: find_after_upsert [OF assms(2)] f1)
  have g1: "get_entry (snd (post_entry p1 s)) d = Json (Some ?e1)"
    by (simp add: get_entry_def post_entry_def f1)
  have g2: "get_entry (snd (post_entry p2 (snd (post_entry p1 s)))) d
              = Json (Some (do_update p2 ?e1))"
    by (simp add: get_entry_def post_entry_def f2)
  have i2: "p_image_data p2 \<noteq> None \<longrightarrow> image_data (do_update p2 ?e1) = p_image_data p2"
    by (auto simp: do_update_def coalesce_def)
  have i3: "p_image_data p2 = None \<longrightarrow> image_data (do_update p2 ?e1) = image_data ?e1"
    by (simp add: do_update_def coalesce_def)
  have i1: "p_image_data p1 \<noteq> None \<or> get_entry s d = Json None \<longrightarrow>
              image_data ?e1 = p_image_data p1"
    by (auto simp: get_entry_def do_update_def inserted_entry_def coalesce_def
        split: option.splits)
  have o: "journal_text (do_update p2 ?e1) = p_journal_text p2"
    "mood (do_update p2 ?e1) = p_mood p2"
    "sleep_start (do_update p2 ?e1) = p_sleep_start p2"
    "sleep_end (do_update p2 ?e1) = p_sleep_end p2"
    "reflection_json (do_update p2 ?e1) = p_reflection_json p2"
    by (simp_all add: do_update_def)
  show ?thesis
    apply (rule exI [of _ ?e1])
    apply (rule exI [of _ "do_update p2 ?e1"])
    apply (intro conjI)
    apply (rule g1 g2 o i1 i2 i3)+
    done
qed

lemmas example_defs =
  example_entry_def empty_store_def post_entry_def upsert_entry_def conflicts_def
  do_update_def inserted_entry_def coalesce_def get_entry_def stored_image_def

theorem resave_entry_keeps_image_witness:
  "p_date (example_entry ''hello'' (Some ''data:image/png;base64,AA'')) = Some ''2024-01-01''
   \<and> p_date (example_entry ''again'' None) = Some ''2024-01-01''
   \<and> get_entry
        (snd (post_entry (example_entry ''again'' None)
               (snd (post_entry (example_entry ''hello'' (Some ''data:image/png;base64,AA''))
                      empty_store))))
        ''2024-01-01''
       = Json (Some \<lparr>entry_id = 1, entry_date = Some ''2024-01-01'',
                      journal_text = Some ''again'', mood = Some ''Joyful'',
                      sleep_start = Some ''22:00'', sleep_end = Some ''06:00'',
                      reflection_json = Some ''{}'',
                      image_data = Some ''data:image/png;base64,AA''\<rparr>)"
  using resave_entry_keeps_image
    [of "example_entry ''hello'' (Some ''data:image/png;base64,AA'')" "''2024-01-01''"
        "example_entry ''again'' None" empty_store]
  by (simp add: example_defs)

text \<open>
  The claim as written fails when an Entry with an image is already stored for the date
  and the first payload carries no image: the stored image stays the old one and is not
  the first payload's (null) value.
\<close>

theorem resave_entry_counterexample:
  "stored_image
     (snd (post_entry (example_entry ''third'' None)
            (snd (post_entry (example_entry ''second'' None)
                   (snd (post_entry (example_entry ''first'' (Some ''data:image/png;base64,AA''))
                          empty_store))))))
     ''2024-01-01''
   \<noteq> p_image_data (example_entry ''second'' None)"
  by (simp add: example_defs)

subsection \<open>One entry per date\<close>

lemma filter_date_map_update:
  "filter (\<lambda>e. entry_date e = k) (map (\<lambda>e. if C e then do_update p e else e) xs) =
   map (\<lambda>e. if C e then do_update p e else e) (filter (\<lambda>e. entry_date e = k) xs)"
  by (induction xs) (simp_all add: entry_date_do_update)

lemma upsert_keeps_one_per_date:
  assumes "one_entry_per_date s"
  shows "one_entry_per_date (upsert_entry p s)"
proof (cases "\<exists>e \<in> set (entries s). conflicts p e")
  case True
  then show ?thesis
    using assms by (simp add: upsert_entry_def one_entry_per_date_def filter_date_map_update)
next
  case False
  have "length (filter (\<lambda>e. entry_date e = Some d)
          (entries s @ [inserted_entry (entries_seq s + 1) p])) \<le> 1" for d
  proof (cases "p_date p = Some d")
    case True
    with False have "\<forall>e \<in> set (entries s). entry_date e \<noteq> Some d"
      by (simp add: conflicts_def)
    then have "filter (\<lambda>e. entry_date e = Some d) (entries s) = []"
      by (simp add: filter_empty_conv)
    then show ?thesis by (simp add: inserted_entry_def)
  next
    case no: False
    then show ?thesis
      using assms by (simp add: inserted_entry_def one_entry_per_date_def)
  qed
  with False show ?thesis
    by (simp add: upsert_entry_def one_entry_per_date_def)
qed

text \<open>Both insert sequences in closed form: the rows they append and the sequence they leave.\<close>

lemma insert_each_task_no_fault:
  "insert_each_task None d titles s =
     (Json (),
      s\<lparr>tasks := tasks s @
           map (\<lambda>(i, t). \<lparr>task_id = tasks_seq s + 1 + int i - int n, task_date = d,
                          task_title = t, task_completed = 0\<rparr>) (enumerate n titles),
        tasks_seq := tasks_seq s + int (length titles)\<rparr>)"
proof (induction titles arbitrary: s n)
  case Nil
  show ?case by simp
next
  case (Cons t ts)
  show ?case
    by (simp add: Cons.IH [where n = "Suc n"]) (simp add: insert_task_def algebra_simps)
qed

lemma insert_each_task_fault:
  "insert_each_task (Some k) d titles s =
     (if k < length titles
      then (Failure, snd (insert_each_task None d (take k titles) s))
      else insert_each_task None d titles s)"
proof (induction titles arbitrary: s k)
  case Nil
  show ?case by simp
next
  case (Cons t ts)
  show ?case by (cases k) (simp_all add: Cons.IH)
qed

lemma insert_children_closed:
  "foldl (\<lambda>st t. insert_template_task tid t st) s ts =
     s\<lparr>routine_template_tasks := routine_template_tasks s @
          map (\<lambda>(i, t). \<lparr>rtt_id = routine_template_tasks_seq s + 1 + int i - int n,
                         template_id = tid, rtt_title = t\<rparr>) (enumerate n ts),
       routine_template_tasks_seq := routine_template_tasks_seq s + int (length ts)\<rparr>"
proof (induction ts arbitrary: s n)
  case Nil
  show ?case by simp
next
  case (Cons t ts)
  show ?case
    by (simp add: Cons.IH [where n = "Suc n"]) (simp add: insert_template_task_def algebra_simps)
qed

lemma insert_each_task_other_tables:
  "entries (snd (insert_each_task f d ts s)) = entries s
   \<and> routine_templates (snd (insert_each_task f d ts s)) = routine_templates s
   \<and> routine_template_tasks (snd (insert_each_task f d ts s)) = routine_template_tasks s"
  by (induction f d ts s rule: insert_each_task.induct) (simp_all add: insert_task_def)

lemma entries_post_routine_templates:
  "entries (snd (post_routine_templates name tf s)) = entries s"
  by (simp add: post_routine_templates_def Let_def insert_children_closed [where n = 0]
      split: option.splits)

lemma entries_delete_template: "entries (snd (delete_template f i s)) = entries s"
  by (simp add: delete_template_def Let_def)

lemma entries_apply_template: "entries (snd (apply_template f d t s)) = entries s"
  by (simp add: apply_template_def insert_each_task_other_tables)

lemma one_entry_per_date_cong:
  "entries s' = entries s \<Longrightarrow> one_entry_per_date s' = one_entry_per_date s"
  by (simp add: one_entry_per_date_def)

lemma reachable_one_entry_per_date: "reachable s \<Longrightarrow> one_entry_per_date s"
proof (induction rule: reachable.induct)
  case r_init
  show ?case by (simp add: one_entry_per_date_def empty_store_def)
next
  case (r_post_entry s p)
  then show ?case by (simp add: post_entry_def upsert_keeps_one_per_date)
next
  case (r_post_routine_templates s name tasks_field)
  then show ?case
    by (simp add: one_entry_per_date_cong [OF entries_post_routine_templates])
next
  case (r_delete_template s fault i)
  then show ?case by (simp add: one_entry_per_date_cong [OF entries_delete_template])
next
  case (r_apply_template s fault date templateId)
  then show ?case by (simp add: one_entry_per_date_cong [OF entries_apply_template])
qed (simp_all add: one_entry_per_date_def post_target_def patch_target_def delete_target_def
      post_task_def insert_task_def patch_task_def delete_task_def)

text \<open>
  C7. In every state the API's operations can reach, each date has at most one Entry row:
  creating an entry and saving again for a stored date never produce a second row for it.
\<close>

theorem at_most_one_entry_per_date:
  assumes "reachable s"
  shows "length (filter (\<lambda>e. entry_date e = Some d) (entries s)) \<le> 1"
  using reachable_one_entry_per_date [OF assms] by (simp add: one_entry_per_date_def)

theorem at_most_one_entry_per_date_witness:
  "reachable (snd (post_entry (example_entry ''again'' None)
                    (snd (post_entry (example_entry ''hello'' None) empty_store))))
   \<and> length (filter (\<lambda>e. entry_date e = Some ''2024-01-01'')
        (entries (snd (post_entry (example_entry ''again'' None)
                        (snd (post_entry (example_entry ''hello'' None) empty_store)))))) \<le> 1
   \<and> map journal_text
        (entries (snd (post_entry (example_entry ''again'' None)
                        (snd (post_entry (example_entry ''hello'' None) empty_store)))))
       = [Some ''again'']"
proof -
  have r: "reachable (snd (post_entry (example_entry ''again'' None)
                    (snd (post_entry (example_entry ''hello'' None) empty_store))))"
    by (intro r_post_entry r_init)
  show ?thesis
    using r at_most_one_entry_per_date [OF r, of "''2024-01-01''"]
    by (simp add: example_defs)
qed

subsection \<open>Templates and their child rows\<close>



lemma cascade_iff:
  "k \<in> set (map rt_id (filter (\<lambda>t. rt_id t = i) ts)) \<longleftrightarrow> k = i \<and> (\<exists>t \<in> set ts. rt_id t = i)"
  by auto

text \<open>The cascade removes the children of \<open>i\<close> exactly when a template \<open>i\<close> is stored.\<close>

lemma delete_template_done:
  "f \<noteq> Some 0 \<Longrightarrow>
   snd (delete_template f i s) =
     s\<lparr>routine_templates := filter (\<lambda>t. rt_id t \<noteq> i) (routine_templates s),
       routine_template_tasks :=
         filter (\<lambda>c. \<not> (template_id c = i \<and> (\<exists>t \<in> set (routine_templates s). rt_id t = i)))
           (routine_template_tasks s)\<rparr>"
  unfolding delete_template_def Let_def
  by (simp add: cascade_iff del: set_map set_filter)







text \<open>The store after the example template is created.\<close>

lemma morning_store_eq:
  "morning_store =
     \<lparr>entries = [], entries_seq = 0, targets = [], targets_seq = 0,
      tasks = [], tasks_seq = 0,
      routine_templates = [\<lparr>rt_id = 1, rt_name = Some ''Morning''\<rparr>],
      routine_templates_seq = 1,
      routine_template_tasks =
        [\<lparr>rtt_id = 1, template_id = 1, rtt_title = Some ''Stretch''\<rparr>,
         \<lparr>rtt_id = 2, template_id = 1, rtt_title = Some ''Hydrate''\<rparr>],
      routine_template_tasks_seq = 2\<rparr>"
  by (simp add: morning_store_def empty_store_def post_routine_templates_def
      insert_template_task_def Let_def)




subsection \<open>Applying and deleting a template\<close>

lemma map_enumerate_proj:
  "map (\<lambda>x. h (snd x)) (enumerate n xs) = map h xs"
  by (induction xs arbitrary: n) simp_all

text \<open>
  The handler in closed form, on the rows of \<open>routine_template_tasks\<close>: with no failure
  every child row of the template yields a task; with a failure after \<open>k\<close> inserts only
  the first \<open>k\<close> child rows do.
\<close>

lemma apply_template_rows:
  "apply_template None d (Some tid) s =
     (Json (),
      s\<lparr>tasks := tasks s @
           map (\<lambda>(i, c). \<lparr>task_id = tasks_seq s + 1 + int i, task_date = d,
                          task_title = rtt_title c, task_completed = 0\<rparr>)
             (enumerate 0 (filter (\<lambda>c. template_id c = tid) (routine_template_tasks s))),
        tasks_seq :=
          tasks_seq s + int (length (filter (\<lambda>c. template_id c = tid)
                                       (routine_template_tasks s)))\<rparr>)"
  by (simp add: apply_template_def template_children_def
      insert_each_task_no_fault [where n = 0] enumerate_map_snd)

lemma apply_template_rows_fault:
  assumes "k < length (filter (\<lambda>c. template_id c = tid) (routine_template_tasks s))"
  shows "apply_template (Some k) d (Some tid) s =
     (Failure,
      s\<lparr>tasks := tasks s @
           map (\<lambda>(i, c). \<lparr>task_id = tasks_seq s + 1 + int i, task_date = d,
                          task_title = rtt_title c, task_completed = 0\<rparr>)
             (enumerate 0 (take k (filter (\<lambda>c. template_id c = tid)
                                     (routine_template_tasks s)))),
        tasks_seq := tasks_seq s + int k\<rparr>)"
  using assms
  by (simp add: apply_template_def template_children_def insert_each_task_fault
      insert_each_task_no_fault [where n = 0] enumerate_map_snd take_map min_def)

lemma apply_template_late_fault:
  assumes "length (filter (\<lambda>c. template_id c = tid) (routine_template_tasks s)) \<le> k"
  shows "apply_template (Some k) d (Some tid) s = apply_template None d (Some tid) s"
  using assms
  by (simp add: apply_template_def template_children_def insert_each_task_fault)

text \<open>
  C3. For every template \<open>T\<close> and every date \<open>d\<close>, applying \<open>T\<close> to \<open>d\<close> succeeds and
  appends to whatever tasks are stored exactly one new task row per row of
  \<open>routine_template_tasks\<close> whose \<open>template_id\<close> is \<open>T\<close>: \<open>n\<close> rows for \<open>n\<close> child
  rows, in order, with the children's titles, date \<open>d\<close>, fresh ids and \<open>completed = 0\<close>.
  The stored tasks stay in front of them, the templates and their child rows are
  unchanged, and applying the template again appends another \<open>n\<close> rows.
\<close>

theorem apply_template_copies_titles:
  "apply_template None (Some d) (Some tid) s =
     (Json (),
      s\<lparr>tasks := tasks s @
           map (\<lambda>(i, c). \<lparr>task_id = tasks_seq s + 1 + int i, task_date = Some d,
                          task_title = rtt_title c, task_completed = 0\<rparr>)
             (enumerate 0 (filter (\<lambda>c. template_id c = tid) (routine_template_tasks s))),
        tasks_seq :=
          tasks_seq s + int (length (filter (\<lambda>c. template_id c = tid)
                                       (routine_template_tasks s)))\<rparr>)
   \<and> length (tasks (snd (apply_template None (Some d) (Some tid) s))) =
       length (tasks s)
       + length (filter (\<lambda>c. template_id c = tid) (routine_template_tasks s))
   \<and> take (length (tasks s)) (tasks (snd (apply_template None (Some d) (Some tid) s))) = tasks s
   \<and> map task_title
        (drop (length (tasks s)) (tasks (snd (apply_template None (Some d) (Some tid) s)))) =
       map rtt_title (filter (\<lambda>c. template_id c = tid) (routine_template_tasks s))
   \<and> map task_date
        (drop (length (tasks s)) (tasks (snd (apply_template None (Some d) (Some tid) s)))) =
       replicate (length (filter (\<lambda>c. template_id c = tid) (routine_template_tasks s)))
         (Some d)
   \<and> routine_templates (snd (apply_template None (Some d) (Some tid) s)) = routine_templates s
   \<and> routine_template_tasks (snd (apply_template None (Some d) (Some tid) s)) =
       routine_template_tasks s
   \<and> length (tasks (snd (apply_template None (Some d) (Some tid)
                 (snd (apply_template None (Some d) (Some tid) s))))) =
       length (tasks s)
       + 2 * length (filter (\<lambda>c. template_id c = tid) (routine_template_tasks s))"
proof -
  let ?kids = "filter (\<lambda>c. template_id c = tid) (routine_template_tasks s)"
  note eq = apply_template_rows [of "Some d" tid]
  have len: "length (tasks (snd (apply_template None (Some d) (Some tid) st))) =
       length (tasks st)
       + length (filter (\<lambda>c. template_id c = tid) (routine_template_tasks st))" for st
    by (simp add: eq)
  have front: "take (length (tasks s))
       (tasks (snd (apply_template None (Some d) (Some tid) s))) = tasks s"
    by (simp add: eq)
  have titles: "map task_title
        (drop (length (tasks s)) (tasks (snd (apply_template None (Some d) (Some tid) s)))) =
       map rtt_title ?kids"
    by (simp add: eq case_prod_unfold comp_def map_enumerate_proj)
  have dates: "map task_date
        (drop (length (tasks s)) (tasks (snd (apply_template None (Some d) (Some tid) s)))) =
       replicate (length ?kids) (Some d)"
    by (simp add: eq case_prod_unfold comp_def map_replicate_const)
  have rt: "routine_templates (snd (apply_template None (Some d) (Some tid) s)) =
       routine_templates s"
    and rtt: "routine_template_tasks (snd (apply_template None (Some d) (Some tid) s)) =
       routine_template_tasks s"
    by (simp_all add: eq)
  have twice: "length (tasks (snd (apply_template None (Some d) (Some tid)
                 (snd (apply_template None (Some d) (Some tid) s))))) =
       length (tasks s) + 2 * length ?kids"
    by (simp add: len rtt)
  show ?thesis
    by (intro conjI) (rule eq len front titles dates rt rtt twice)+
qed


text \<open>The example store with one task already on the date, and with a second template.\<close>

lemma morning_task_store:
  "snd (post_task (Some ''2024-02-02'') (Some ''Stretch'') morning_store) =
     morning_store\<lparr>tasks := [\<lparr>task_id = 1, task_date = Some ''2024-02-02'',
                                  task_title = Some ''Stretch'', task_completed = 0\<rparr>],
                    tasks_seq := 1\<rparr>"
  by (simp add: post_task_def insert_task_def morning_store_eq)

lemma evening_store:
  "snd (post_routine_templates (Some ''Evening'') (Some [Some ''Read'']) morning_store) =
     \<lparr>entries = [], entries_seq = 0, targets = [], targets_seq = 0,
      tasks = [], tasks_seq = 0,
      routine_templates = [\<lparr>rt_id = 1, rt_name = Some ''Morning''\<rparr>,
                           \<lparr>rt_id = 2, rt_name = Some ''Evening''\<rparr>],
      routine_templates_seq = 2,
      routine_template_tasks =
        [\<lparr>rtt_id = 1, template_id = 1, rtt_title = Some ''Stretch''\<rparr>,
         \<lparr>rtt_id = 2, template_id = 1, rtt_title = Some ''Hydrate''\<rparr>,
         \<lparr>rtt_id = 3, template_id = 2, rtt_title = Some ''Read''\<rparr>],
      routine_template_tasks_seq = 3\<rparr>"
  by (simp add: post_routine_templates_def insert_template_task_def Let_def morning_store_eq)

theorem apply_template_copies_titles_witness:
  "fst (apply_template None (Some ''2024-02-02'') (Some 1)
          (snd (post_task (Some ''2024-02-02'') (Some ''Stretch'') morning_store))) = Json ()
   \<and> tasks (snd (apply_template None (Some ''2024-02-02'') (Some 1)
          (snd (post_task (Some ''2024-02-02'') (Some ''Stretch'') morning_store)))) =
       [\<lparr>task_id = 1, task_date = Some ''2024-02-02'', task_title = Some ''Stretch'',
         task_completed = 0\<rparr>,
        \<lparr>task_id = 2, task_date = Some ''2024-02-02'', task_title = Some ''Stretch'',
         task_completed = 0\<rparr>,
        \<lparr>task_id = 3, task_date = Some ''2024-02-02'', task_title = Some ''Hydrate'',
         task_completed = 0\<rparr>]
   \<and> tasks (snd (apply_template None (Some ''2024-02-02'') (Some 2)
          (snd (post_task (Some ''2024-02-02'') (Some ''Stretch'') morning_store)))) =
       [\<lparr>task_id = 1, task_date = Some ''2024-02-02'', task_title = Some ''Stretch'',
         task_completed = 0\<rparr>]"
  using apply_template_copies_titles
      [of "''2024-02-02''" 1 "snd (post_task (Some ''2024-02-02'') (Some ''Stretch'') morning_store)"]
    apply_template_copies_titles
      [of "''2024-02-02''" 2 "snd (post_task (Some ''2024-02-02'') (Some ''Stretch'') morning_store)"]
  by (simp add: morning_task_store) (simp add: morning_store_eq)

text \<open>
  C4 (as amended). Deleting a template is atomic: its single statement either fails and
  leaves the store as it was, or removes every template row with that id together with
  every child row that refers to it, keeps all other rows and changes no other table.
  Applying a template is not atomic: when the store fails on the insert after the first
  \<open>k\<close> of the template's \<open>n\<close> child rows (\<open>k < n\<close>), the request fails and exactly the
  tasks of the first \<open>k\<close> child rows stay written; when no insert fails, the tasks of all
  \<open>n\<close> child rows are written.
\<close>

theorem apply_and_delete_under_failure:
  "(fst (delete_template fault i s) = Failure \<longrightarrow> snd (delete_template fault i s) = s)
   \<and> (fst (delete_template fault i s) \<noteq> Failure \<longrightarrow>
        snd (delete_template fault i s) =
          s\<lparr>routine_templates := filter (\<lambda>t. rt_id t \<noteq> i) (routine_templates s),
            routine_template_tasks :=
              filter (\<lambda>c. \<not> (template_id c = i \<and> (\<exists>t \<in> set (routine_templates s). rt_id t = i)))
                (routine_template_tasks s)\<rparr>)
   \<and> (fst (delete_template fault i s) \<noteq> Failure
        \<and> (\<exists>t \<in> set (routine_templates s). rt_id t = i) \<longrightarrow>
        (\<forall>t \<in> set (routine_templates (snd (delete_template fault i s))). rt_id t \<noteq> i)
        \<and> (\<forall>c \<in> set (routine_template_tasks (snd (delete_template fault i s))).
              template_id c \<noteq> i)
        \<and> filter (\<lambda>c. template_id c \<noteq> i) (routine_template_tasks (snd (delete_template fault i s)))
            = filter (\<lambda>c. template_id c \<noteq> i) (routine_template_tasks s))
   \<and> (k < length (filter (\<lambda>c. template_id c = tid) (routine_template_tasks s)) \<longrightarrow>
        apply_template (Some k) d (Some tid) s =
          (Failure,
           s\<lparr>tasks := tasks s @
                map (\<lambda>(i, c). \<lparr>task_id = tasks_seq s + 1 + int i, task_date = d,
                               task_title = rtt_title c, task_completed = 0\<rparr>)
                  (enumerate 0 (take k (filter (\<lambda>c. template_id c = tid)
                                          (routine_template_tasks s)))),
             tasks_seq := tasks_seq s + int k\<rparr>))
   \<and> (length (filter (\<lambda>c. template_id c = tid) (routine_template_tasks s)) \<le> k \<longrightarrow>
        apply_template (Some k) d (Some tid) s =
          (Json (),
           s\<lparr>tasks := tasks s @
                map (\<lambda>(i, c). \<lparr>task_id = tasks_seq s + 1 + int i, task_date = d,
                               task_title = rtt_title c, task_completed = 0\<rparr>)
                  (enumerate 0 (filter (\<lambda>c. template_id c = tid) (routine_template_tasks s))),
             tasks_seq :=
               tasks_seq s + int (length (filter (\<lambda>c. template_id c = tid)
                                            (routine_template_tasks s)))\<rparr>))"
proof -
  have ok: "fst (delete_template fault i s) \<noteq> Failure \<longleftrightarrow> fault \<noteq> Some 0"
    by (simp add: delete_template_def Let_def)
  have a: "fst (delete_template fault i s) = Failure \<longrightarrow> snd (delete_template fault i s) = s"
    by (simp add: delete_template_def Let_def)
  have b: "fst (delete_template fault i s) \<noteq> Failure \<longrightarrow>
        snd (delete_template fault i s) =
          s\<lparr>routine_templates := filter (\<lambda>t. rt_id t \<noteq> i) (routine_templates s),
            routine_template_tasks :=
              filter (\<lambda>c. \<not> (template_id c = i \<and> (\<exists>t \<in> set (routine_templates s). rt_id t = i)))
                (routine_template_tasks s)\<rparr>"
    unfolding ok by (rule impI) (rule delete_template_done)
  have c: "fst (delete_template fault i s) \<noteq> Failure
        \<and> (\<exists>t \<in> set (routine_templates s). rt_id t = i) \<longrightarrow>
        (\<forall>t \<in> set (routine_templates (snd (delete_template fault i s))). rt_id t \<noteq> i)
        \<and> (\<forall>c \<in> set (routine_template_tasks (snd (delete_template fault i s))).
              template_id c \<noteq> i)
        \<and> filter (\<lambda>c. template_id c \<noteq> i) (routine_template_tasks (snd (delete_template fault i s)))
            = filter (\<lambda>c. template_id c \<noteq> i) (routine_template_tasks s)"
  proof (intro impI, elim conjE)
    assume fine: "fst (delete_template fault i s) \<noteq> Failure"
      and stored: "\<exists>t \<in> set (routine_templates s). rt_id t = i"
    from fine have f: "fault \<noteq> Some 0" by (simp add: ok)
    from stored have kept: "(\<lambda>c. \<not> (template_id c = i \<and> (\<exists>t \<in> set (routine_templates s). rt_id t = i)))
        = (\<lambda>c. template_id c \<noteq> i)"
      by auto
    show "(\<forall>t \<in> set (routine_templates (snd (delete_template fault i s))). rt_id t \<noteq> i)
        \<and> (\<forall>c \<in> set (routine_template_tasks (snd (delete_template fault i s))).
              template_id c \<noteq> i)
        \<and> filter (\<lambda>c. template_id c \<noteq> i) (routine_template_tasks (snd (delete_template fault i s)))
            = filter (\<lambda>c. template_id c \<noteq> i) (routine_template_tasks s)"
      unfolding delete_template_done [OF f] kept by simp
  qed
  have e: "k < length (filter (\<lambda>c. template_id c = tid) (routine_template_tasks s)) \<longrightarrow>
        apply_template (Some k) d (Some tid) s =
          (Failure,
           s\<lparr>tasks := tasks s @
                map (\<lambda>(i, c). \<lparr>task_id = tasks_seq s + 1 + int i, task_date = d,
                               task_title = rtt_title c, task_completed = 0\<rparr>)
                  (enumerate 0 (take k (filter (\<lambda>c. template_id c = tid)
                                          (routine_template_tasks s)))),
             tasks_seq := tasks_seq s + int k\<rparr>)"
    by (rule impI) (rule apply_template_rows_fault)
  have g: "length (filter (\<lambda>c. template_id c = tid) (routine_template_tasks s)) \<le> k \<longrightarrow>
        apply_template (Some k) d (Some tid) s =
          (Json (),
           s\<lparr>tasks := tasks s @
                map (\<lambda>(i, c). \<lparr>task_id = tasks_seq s + 1 + int i, task_date = d,
                               task_title = rtt_title c, task_completed = 0\<rparr>)
                  (enumerate 0 (filter (\<lambda>c. template_id c = tid) (routine_template_tasks s))),
             tasks_seq :=
               tasks_seq s + int (length (filter (\<lambda>c. template_id c = tid)
                                            (routine_template_tasks s)))\<rparr>)"
    by (simp add: apply_template_late_fault apply_template_rows)
  show ?thesis by (intro conjI) (rule a b c e g)+
qed

lemma morning_children:
  "template_children morning_store 1 =
     [\<lparr>rtt_id = 1, template_id = 1, rtt_title = Some ''Stretch''\<rparr>,
      \<lparr>rtt_id = 2, template_id = 1, rtt_title = Some ''Hydrate''\<rparr>]"
  by (simp add: morning_store_eq template_children_def)

theorem apply_and_delete_under_failure_witness:
  "fst (delete_template (Some 0) 1
          (snd (post_routine_templates (Some ''Evening'') (Some [Some ''Read'']) morning_store)))
     = Failure
   \<and> snd (delete_template (Some 0) 1
          (snd (post_routine_templates (Some ''Evening'') (Some [Some ''Read'']) morning_store)))
     = snd (post_routine_templates (Some ''Evening'') (Some [Some ''Read'']) morning_store)
   \<and> fst (delete_template None 1
          (snd (post_routine_templates (Some ''Evening'') (Some [Some ''Read'']) morning_store)))
     \<noteq> Failure
   \<and> (\<exists>t \<in> set (routine_templates
          (snd (post_routine_templates (Some ''Evening'') (Some [Some ''Read'']) morning_store))).
          rt_id t = 1)
   \<and> routine_templates (snd (delete_template None 1
          (snd (post_routine_templates (Some ''Evening'') (Some [Some ''Read'']) morning_store))))
     = [\<lparr>rt_id = 2, rt_name = Some ''Evening''\<rparr>]
   \<and> routine_template_tasks (snd (delete_template None 1
          (snd (post_routine_templates (Some ''Evening'') (Some [Some ''Read'']) morning_store))))
     = [\<lparr>rtt_id = 3, template_id = 2, rtt_title = Some ''Read''\<rparr>]
   \<and> (1::nat) < length (filter (\<lambda>c. template_id c = 1) (routine_template_tasks morning_store))
   \<and> fst (apply_template (Some 1) (Some ''2024-02-02'') (Some 1) morning_store) = Failure
   \<and> tasks (snd (apply_template (Some 1) (Some ''2024-02-02'') (Some 1) morning_store)) =
        [\<lparr>task_id = 1, task_date = Some ''2024-02-02'', task_title = Some ''Stretch'',
          task_completed = 0\<rparr>]
   \<and> length (filter (\<lambda>c. template_id c = 1) (routine_template_tasks morning_store)) \<le> (2::nat)
   \<and> fst (apply_template (Some 2) (Some ''2024-02-02'') (Some 1) morning_store) = Json ()
   \<and> tasks (snd (apply_template (Some 2) (Some ''2024-02-02'') (Some 1) morning_store)) =
        [\<lparr>task_id = 1, task_date = Some ''2024-02-02'', task_title = Some ''Stretch'',
          task_completed = 0\<rparr>,
         \<lparr>task_id = 2, task_date = Some ''2024-02-02'', task_title = Some ''Hydrate'',
          task_completed = 0\<rparr>]"
proof -
  let ?E = "snd (post_routine_templates (Some ''Evening'') (Some [Some ''Read'']) morning_store)"
  have d0: "fst (delete_template (Some 0) 1 ?E) = Failure"
    and d1: "fst (delete_template None 1 ?E) \<noteq> Failure"
    by (simp_all add: delete_template_def Let_def)
  have st: "\<exists>t \<in> set (routine_templates ?E). rt_id t = 1"
    by (simp add: evening_store)
  have n: "(1::nat) < length (filter (\<lambda>c. template_id c = 1) (routine_template_tasks morning_store))"
    "length (filter (\<lambda>c. template_id c = 1) (routine_template_tasks morning_store)) \<le> (2::nat)"
    by (simp_all add: morning_store_eq)
  note t0 = apply_and_delete_under_failure
    [where fault = "Some 0" and i = 1 and s = ?E]
  note t1 = apply_and_delete_under_failure
    [where fault = None and i = 1 and s = ?E]
  note t2 = apply_and_delete_under_failure
    [where s = morning_store and k = 1 and tid = 1 and d = "Some ''2024-02-02''"]
  note t3 = apply_and_delete_under_failure
    [where s = morning_store and k = 2 and tid = 1 and d = "Some ''2024-02-02''"]
  have x: "snd (delete_template (Some 0) 1 ?E) = ?E"
    using t0 d0 by blast
  have y: "snd (delete_template None 1 ?E) =
          ?E\<lparr>routine_templates := filter (\<lambda>t. rt_id t \<noteq> 1) (routine_templates ?E),
            routine_template_tasks :=
              filter (\<lambda>c. \<not> (template_id c = 1 \<and> (\<exists>t \<in> set (routine_templates ?E). rt_id t = 1)))
                (routine_template_tasks ?E)\<rparr>"
    using t1 d1 by blast
  have y1: "routine_templates (snd (delete_template None 1 ?E)) = [\<lparr>rt_id = 2, rt_name = Some ''Evening''\<rparr>]"
    by (subst y) (simp add: evening_store)
  have y2: "routine_template_tasks (snd (delete_template None 1 ?E))
     = [\<lparr>rtt_id = 3, template_id = 2, rtt_title = Some ''Read''\<rparr>]"
    by (subst y) (simp add: evening_store)
  have z: "apply_template (Some 1) (Some ''2024-02-02'') (Some 1) morning_store =
          (Failure,
           morning_store\<lparr>tasks := tasks morning_store @
                map (\<lambda>(i, c). \<lparr>task_id = tasks_seq morning_store + 1 + int i,
                               task_date = Some ''2024-02-02'',
                               task_title = rtt_title c, task_completed = 0\<rparr>)
                  (enumerate 0 (take 1 (filter (\<lambda>c. template_id c = 1)
                                          (routine_template_tasks morning_store)))),
             tasks_seq := tasks_seq morning_store + int 1\<rparr>)"
    using t2 n(1) by blast
  have z1: "fst (apply_template (Some 1) (Some ''2024-02-02'') (Some 1) morning_store) = Failure"
    by (subst z) simp
  have z2: "tasks (snd (apply_template (Some 1) (Some ''2024-02-02'') (Some 1) morning_store)) =
        [\<lparr>task_id = 1, task_date = Some ''2024-02-02'', task_title = Some ''Stretch'',
          task_completed = 0\<rparr>]"
    by (subst z) (simp add: morning_store_eq)
  have w: "apply_template (Some 2) (Some ''2024-02-02'') (Some 1) morning_store =
          (Json (),
           morning_store\<lparr>tasks := tasks morning_store @
                map (\<lambda>(i, c). \<lparr>task_id = tasks_seq morning_store + 1 + int i,
                               task_date = Some ''2024-02-02'',
                               task_title = rtt_title c, task_completed = 0\<rparr>)
                  (enumerate 0 (filter (\<lambda>c. template_id c = 1)
                                  (routine_template_tasks morning_store))),
             tasks_seq :=
               tasks_seq morning_store + int (length (filter (\<lambda>c. template_id c = 1)
                                            (routine_template_tasks morning_store)))\<rparr>)"
    using t3 n(2) by blast
  have w1: "fst (apply_template (Some 2) (Some ''2024-02-02'') (Some 1) morning_store) = Json ()"
    by (subst w) simp
  have w2: "tasks (snd (apply_template (Some 2) (Some ''2024-02-02'') (Some 1) morning_store)) =
        [\<lparr>task_id = 1, task_date = Some ''2024-02-02'', task_title = Some ''Stretch'',
          task_completed = 0\<rparr>,
         \<lparr>task_id = 2, task_date = Some ''2024-02-02'', task_title = Some ''Hydrate'',
          task_completed = 0\<rparr>]"
    by (subst w) (simp add: morning_store_eq)
  show ?thesis
    by (intro conjI) (rule d0 d1 st n x y1 y2 z1 z2 w1 w2)+
qed


text \<open>
  The claim as written fails for apply-template: with the template ``Morning'' of two
  titles, a store failure on the second insert ends the request with an error while the
  first task row is already written, one row of two.
\<close>

theorem apply_template_atomic_counterexample:
  "fst (apply_template (Some 1) (Some ''2024-02-02'') (Some 1) morning_store) = Failure
   \<and> length (template_children morning_store 1) = 2
   \<and> tasks morning_store = []
   \<and> map task_title
        (tasks (snd (apply_template (Some 1) (Some ''2024-02-02'') (Some 1) morning_store)))
       = [Some ''Stretch'']
   \<and> snd (apply_template (Some 1) (Some ''2024-02-02'') (Some 1) morning_store) \<noteq> morning_store
   \<and> snd (apply_template (Some 1) (Some ''2024-02-02'') (Some 1) morning_store)
       \<noteq> snd (apply_template None (Some ''2024-02-02'') (Some 1) morning_store)"
proof -
  have a: "apply_template (Some 1) (Some ''2024-02-02'') (Some 1) morning_store =
      (Failure, insert_task (Some ''2024-02-02'') (Some ''Stretch'') morning_store)"
    by (simp add: apply_template_def morning_children)
  have b: "apply_template None (Some ''2024-02-02'') (Some 1) morning_store =
      (Json (), insert_task (Some ''2024-02-02'') (Some ''Hydrate'')
                  (insert_task (Some ''2024-02-02'') (Some ''Stretch'') morning_store))"
    by (simp add: apply_template_def morning_children)
  have t: "tasks (insert_task (Some ''2024-02-02'') (Some ''Stretch'') morning_store) =
      [\<lparr>task_id = 1, task_date = Some ''2024-02-02'', task_title = Some ''Stretch'',
        task_completed = 0\<rparr>]"
    by (simp add: insert_task_def morning_store_eq)
  have t2: "length (tasks (insert_task (Some ''2024-02-02'') (Some ''Hydrate'')
                  (insert_task (Some ''2024-02-02'') (Some ''Stretch'') morning_store))) = 2"
    by (simp add: insert_task_def morning_store_eq)
  have e: "tasks morning_store = []"
    by (simp add: morning_store_eq)
  have ne1: "insert_task (Some ''2024-02-02'') (Some ''Stretch'') morning_store \<noteq> morning_store"
    using t e by (metis list.distinct(1))
  have ne2: "insert_task (Some ''2024-02-02'') (Some ''Stretch'') morning_store
      \<noteq> insert_task (Some ''2024-02-02'') (Some ''Hydrate'')
                  (insert_task (Some ''2024-02-02'') (Some ''Stretch'') morning_store)"
    using t t2 by (metis length_Cons list.size(3) numeral_2_eq_2 n_not_Suc_n)
  show ?thesis
    using ne1 ne2 by (simp add: a b t e morning_children del: One_nat_def)
qed

subsection \<open>Completion flags\<close>

lemma tasks_patch_task:
  "tasks (snd (patch_task i c s)) =
     map (\<lambda>t. if task_id t = i then t\<lparr>task_completed := (if truthy c then 1 else 0)\<rparr> else t)
       (tasks s)"
  by (simp add: patch_task_def)

lemma targets_patch_target:
  "targets (snd (patch_target i c s)) =
     map (\<lambda>t. if target_id t = i then t\<lparr>target_completed := (if truthy c then 1 else 0)\<rparr>
               else t) (targets s)"
  by (simp add: patch_target_def)

lemma patch_task_twice:
  "snd (patch_task i c (snd (patch_task i c s))) = snd (patch_task i c s)"
  by (simp add: patch_task_def comp_def)

lemma patch_target_twice:
  "snd (patch_target i c (snd (patch_target i c s))) = snd (patch_target i c s)"
  by (simp add: patch_target_def comp_def)

text \<open>
  C5. A PATCH of \<open>completed\<close> on a Task or a Target is idempotent: the same call made
  \<open>n + 1\<close> times leaves the store as one call does. It changes no column other than
  \<open>completed\<close> (id, date, title, type and period key of every row stay), no row with
  another id, and no other table.
\<close>

theorem patch_completed_idempotent:
  "((\<lambda>st. snd (patch_task i c st)) ^^ Suc n) s = snd (patch_task i c s)
   \<and> ((\<lambda>st. snd (patch_target j c st)) ^^ Suc n) s = snd (patch_target j c s)
   \<and> map task_id (tasks (snd (patch_task i c s))) = map task_id (tasks s)
   \<and> map task_date (tasks (snd (patch_task i c s))) = map task_date (tasks s)
   \<and> map task_title (tasks (snd (patch_task i c s))) = map task_title (tasks s)
   \<and> filter (\<lambda>t. task_id t \<noteq> i) (tasks (snd (patch_task i c s))) =
       filter (\<lambda>t. task_id t \<noteq> i) (tasks s)
   \<and> snd (patch_task i c s) = s\<lparr>tasks := tasks (snd (patch_task i c s))\<rparr>
   \<and> map target_id (targets (snd (patch_target j c s))) = map target_id (targets s)
   \<and> map target_type (targets (snd (patch_target j c s))) = map target_type (targets s)
   \<and> map target_title (targets (snd (patch_target j c s))) = map target_title (targets s)
   \<and> map period_key (targets (snd (patch_target j c s))) = map period_key (targets s)
   \<and> filter (\<lambda>t. target_id t \<noteq> j) (targets (snd (patch_target j c s))) =
       filter (\<lambda>t. target_id t \<noteq> j) (targets s)
   \<and> snd (patch_target j c s) = s\<lparr>targets := targets (snd (patch_target j c s))\<rparr>"
proof -
  have a: "((\<lambda>st. snd (patch_task i c st)) ^^ Suc n) s = snd (patch_task i c s)"
    by (rule funpow_idem) (rule patch_task_twice)
  have b: "((\<lambda>st. snd (patch_target j c st)) ^^ Suc n) s = snd (patch_target j c s)"
    by (rule funpow_idem) (rule patch_target_twice)
  have t1: "map task_id (tasks (snd (patch_task i c s))) = map task_id (tasks s)"
    unfolding tasks_patch_task by (rule map_field_map_if) simp
  have t2: "map task_date (tasks (snd (patch_task i c s))) = map task_date (tasks s)"
    unfolding tasks_patch_task by (rule map_field_map_if) simp
  have t3: "map task_title (tasks (snd (patch_task i c s))) = map task_title (tasks s)"
    unfolding tasks_patch_task by (rule map_field_map_if) simp
  have t4: "filter (\<lambda>t. task_id t \<noteq> i) (tasks (snd (patch_task i c s))) =
            filter (\<lambda>t. task_id t \<noteq> i) (tasks s)"
    unfolding tasks_patch_task by (rule filter_others_map_if) simp
  have t5: "snd (patch_task i c s) = s\<lparr>tasks := tasks (snd (patch_task i c s))\<rparr>"
    by (simp add: patch_task_def)
  have g1: "map target_id (targets (snd (patch_target j c s))) = map target_id (targets s)"
    unfolding targets_patch_target by (rule map_field_map_if) simp
  have g2: "map target_type (targets (snd (patch_target j c s))) = map target_type (targets s)"
    unfolding targets_patch_target by (rule map_field_map_if) simp
  have g3: "map target_title (targets (snd (patch_target j c s))) = map target_title (targets s)"
    unfolding targets_patch_target by (rule map_field_map_if) simp
  have g4: "map period_key (targets (snd (patch_target j c s))) = map period_key (targets s)"
    unfolding targets_patch_target by (rule map_field_map_if) simp
  have g5: "filter (\<lambda>t. target_id t \<noteq> j) (targets (snd (patch_target j c s))) =
            filter (\<lambda>t. target_id t \<noteq> j) (targets s)"
    unfolding targets_patch_target by (rule filter_others_map_if) simp
  have g6: "snd (patch_target j c s) = s\<lparr>targets := targets (snd (patch_target j c s))\<rparr>"
    by (simp add: patch_target_def)
  show ?thesis
    by (intro conjI) (rule a b t1 t2 t3 t4 t5 g1 g2 g3 g4 g5 g6)+
qed

text \<open>
  C9. After a PATCH to \<open>/tasks/{id}\<close> or \<open>/targets/{id}\<close>, every row with that id has
  \<open>completed = 1\<close> when the payload's \<open>completed\<close> is truthy and \<open>completed = 0\<close>
  otherwise; an omitted field, \<open>false\<close>, \<open>null\<close> and \<open>0\<close> are not truthy, so they store 0.
\<close>

theorem patch_completed_zero_or_one:
  "(\<forall>t \<in> set (tasks (snd (patch_task i c s))).
       task_id t = i \<longrightarrow> task_completed t = (if truthy c then 1 else 0))
   \<and> (\<forall>t \<in> set (targets (snd (patch_target i c s))).
       target_id t = i \<longrightarrow> target_completed t = (if truthy c then 1 else 0))
   \<and> \<not> truthy JUndefined \<and> \<not> truthy (JBool False) \<and> \<not> truthy JNull \<and> \<not> truthy (JNumber 0)"
proof -
  have a: "\<forall>t \<in> set (tasks (snd (patch_task i c s))).
       task_id t = i \<longrightarrow> task_completed t = (if truthy c then 1 else 0)"
    unfolding tasks_patch_task by (rule matching_rows_map_if) simp
  have b: "\<forall>t \<in> set (targets (snd (patch_target i c s))).
       target_id t = i \<longrightarrow> target_completed t = (if truthy c then 1 else 0)"
    unfolding targets_patch_target by (rule matching_rows_map_if) simp
  show ?thesis using a b by simp
qed

lemma done_task_store:
  "snd (patch_task 1 (JBool True) (snd (post_task (Some ''2024-02-02'') (Some ''Stretch'') empty_store)))
   = empty_store\<lparr>tasks := [\<lparr>task_id = 1, task_date = Some ''2024-02-02'',
                              task_title = Some ''Stretch'', task_completed = 1\<rparr>],
                  tasks_seq := 1\<rparr>"
  by (simp add: patch_task_def post_task_def insert_task_def empty_store_def)

lemma done_target_store:
  "snd (patch_target 1 (JString ''yes'')
         (snd (post_target (Some ''daily'') (Some ''Walk'') (Some ''2024-02-02'') empty_store)))
   = empty_store\<lparr>targets := [\<lparr>target_id = 1, target_type = Some ''daily'',
                                target_title = Some ''Walk'', target_completed = 1,
                                period_key = Some ''2024-02-02''\<rparr>],
                  targets_seq := 1\<rparr>"
  by (simp add: patch_target_def post_target_def empty_store_def)

theorem patch_completed_zero_or_one_witness:
  "map task_completed
     (tasks (snd (patch_task 1 JUndefined
        (snd (patch_task 1 (JBool True)
          (snd (post_task (Some ''2024-02-02'') (Some ''Stretch'') empty_store))))))) = [0]
   \<and> map target_completed
     (targets (snd (patch_target 1 (JNumber 0)
        (snd (patch_target 1 (JString ''yes'')
          (snd (post_target (Some ''daily'') (Some ''Walk'') (Some ''2024-02-02'')
                 empty_store))))))) = [0]
   \<and> map task_completed
     (tasks (snd (patch_task 1 (JBool True)
          (snd (post_task (Some ''2024-02-02'') (Some ''Stretch'') empty_store))))) = [1]"
  using patch_completed_zero_or_one
    [of 1 JUndefined
      "snd (patch_task 1 (JBool True)
          (snd (post_task (Some ''2024-02-02'') (Some ''Stretch'') empty_store)))"]
    patch_completed_zero_or_one
    [of 1 "JNumber 0"
      "snd (patch_target 1 (JString ''yes'')
          (snd (post_target (Some ''daily'') (Some ''Walk'') (Some ''2024-02-02'')
                 empty_store)))"]
  by (simp add: done_task_store done_target_store) (simp add: patch_task_def patch_target_def)

subsection \<open>Reads\<close>

text \<open>
  C6. For a date with no saved Entry, \<open>GET /entries/{d}\<close> answers with the JSON value
  \<open>null\<close>, not with an error. The other reads by key answer with the empty list when
  nothing matches (tasks of a date, targets of a period, the template list, the children
  of a template), and no read ever answers with an error.
\<close>

theorem read_by_key_not_found:
  "((\<forall>e \<in> set (entries s). entry_date e \<noteq> Some d) \<longrightarrow> get_entry s d = Json None)
   \<and> ((\<forall>t \<in> set (tasks s). task_date t \<noteq> Some d) \<longrightarrow> get_tasks s d = Json [])
   \<and> ((\<forall>t \<in> set (targets s). period_key t \<noteq> Some pk) \<longrightarrow> get_targets s pk = Json [])
   \<and> (routine_templates s = [] \<longrightarrow> get_routine_templates s = Json [])
   \<and> ((\<forall>c \<in> set (routine_template_tasks s). template_id c \<noteq> i) \<longrightarrow>
        template_children s i = [])
   \<and> get_entry s d \<noteq> Failure \<and> get_tasks s d \<noteq> Failure \<and> get_targets s pk \<noteq> Failure
   \<and> get_routine_templates s \<noteq> Failure \<and> get_entries s \<noteq> Failure"
  by (auto simp: get_entry_def get_tasks_def get_targets_def get_routine_templates_def
      get_entries_def template_children_def find_None_iff filter_empty_conv)

lemma busy_store:
  "snd (post_target (Some ''daily'') (Some ''Walk'') (Some ''2024-01-01'')
     (snd (post_task (Some ''2024-01-01'') (Some ''Stretch'')
       (snd (post_entry (example_entry ''hello'' None) empty_store)))))
   = \<lparr>entries = [\<lparr>entry_id = 1, entry_date = Some ''2024-01-01'',
                   journal_text = Some ''hello'', mood = Some ''Joyful'',
                   sleep_start = Some ''22:00'', sleep_end = Some ''06:00'',
                   reflection_json = Some ''{}'', image_data = None\<rparr>],
      entries_seq = 1,
      targets = [\<lparr>target_id = 1, target_type = Some ''daily'', target_title = Some ''Walk'',
                   target_completed = 0, period_key = Some ''2024-01-01''\<rparr>],
      targets_seq = 1,
      tasks = [\<lparr>task_id = 1, task_date = Some ''2024-01-01'', task_title = Some ''Stretch'',
                 task_completed = 0\<rparr>],
      tasks_seq = 1,
      routine_templates = [], routine_templates_seq = 0,
      routine_template_tasks = [], routine_template_tasks_seq = 0\<rparr>"
  by (simp add: post_target_def post_task_def insert_task_def example_defs)

theorem read_by_key_not_found_witness:
  "get_entry
     (snd (post_target (Some ''daily'') (Some ''Walk'') (Some ''2024-01-01'')
       (snd (post_task (Some ''2024-01-01'') (Some ''Stretch'')
         (snd (post_entry (example_entry ''hello'' None) empty_store))))))
     ''2024-01-02'' = Json None
   \<and> get_tasks
     (snd (post_target (Some ''daily'') (Some ''Walk'') (Some ''2024-01-01'')
       (snd (post_task (Some ''2024-01-01'') (Some ''Stretch'')
         (snd (post_entry (example_entry ''hello'' None) empty_store))))))
     ''2024-01-02'' = Json []
   \<and> get_targets
     (snd (post_target (Some ''daily'') (Some ''Walk'') (Some ''2024-01-01'')
       (snd (post_task (Some ''2024-01-01'') (Some ''Stretch'')
         (snd (post_entry (example_entry ''hello'' None) empty_store))))))
     ''2024-W01'' = Json []
   \<and> get_routine_templates
     (snd (post_target (Some ''daily'') (Some ''Walk'') (Some ''2024-01-01'')
       (snd (post_task (Some ''2024-01-01'') (Some ''Stretch'')
         (snd (post_entry (example_entry ''hello'' None) empty_store)))))) = Json []
   \<and> template_children morning_store 2 = []"
  using read_by_key_not_found
    [of "snd (post_target (Some ''daily'') (Some ''Walk'') (Some ''2024-01-01'')
       (snd (post_task (Some ''2024-01-01'') (Some ''Stretch'')
         (snd (post_entry (example_entry ''hello'' None) empty_store)))))"
      "''2024-01-02''" "''2024-W01''" 2]
    read_by_key_not_found [of morning_store "''2024-01-02''" "''2024-W01''" 2]
  by (simp add: busy_store morning_store_eq)

text \<open>
  C8. \<open>GET /entries\<close> answers with all stored Entry rows, each exactly once, ordered by
  date from newest to oldest (dates never increase along the list).
\<close>

theorem get_entries_newest_first:
  "\<exists>rows. get_entries s = Json rows
        \<and> mset rows = mset (entries s)
        \<and> sorted_wrt (\<lambda>a b. entry_date a \<ge> entry_date b) rows"
proof -
  have "sorted (map entry_date (sort_key entry_date (entries s)))"
    by (rule sorted_sort_key)
  then have "sorted_wrt (\<lambda>a b. entry_date b \<le> entry_date a)
               (rev (sort_key entry_date (entries s)))"
    by (simp add: sorted_wrt_rev sorted_map)
  then show ?thesis
    by (simp add: get_entries_def)
qed

subsection \<open>Template names\<close>

text \<open>
  C10. \<open>POST /routine-templates\<close> with the name of a stored template fails on the
  uniqueness of names before any child row is inserted: the request answers with an
  error and the store, in particular \<open>routine_templates\<close> and
  \<open>routine_template_tasks\<close>, is unchanged.
\<close>

theorem duplicate_template_name_rejected:
  assumes "\<exists>t \<in> set (routine_templates s). rt_name t = Some n"
  shows "post_routine_templates (Some n) tasks_field s = (Failure, s)"
  using assms by (simp add: post_routine_templates_def)

theorem duplicate_template_name_rejected_witness:
  "(\<exists>t \<in> set (routine_templates morning_store). rt_name t = Some ''Morning'')
   \<and> post_routine_templates (Some ''Morning'') (Some [Some ''Run'']) morning_store
       = (Failure, morning_store)
   \<and> map rtt_title (routine_template_tasks morning_store) = [Some ''Stretch'', Some ''Hydrate'']"
proof -
  have h: "\<exists>t \<in> set (routine_templates morning_store). rt_name t = Some ''Morning''"
    by (simp add: morning_store_eq)
  have k: "map rtt_title (routine_template_tasks morning_store) = [Some ''Stretch'', Some ''Hydrate'']"
    by (simp add: morning_store_eq)
  show ?thesis
    using h k duplicate_template_name_rejected [OF h, of "Some [Some ''Run'']"] by blast
qed

end
